theory Spec2Isabelle
  imports Main "HOL-Library.Sublist" "HOL-Library.AList"
begin

section \<open>Python values, exceptions and string conversion\<close>

text \<open>
  The execution tool of \<^verbatim>\<open>custom_tool_vendas.py\<close> handles arbitrary Python objects
  through two operations only: \<^verbatim>\<open>str(x)\<close> and, for a caught exception,
  \<^verbatim>\<open>type(e).__name__\<close>. An exception is therefore modelled by its class name, by
  whether its class derives from \<^verbatim>\<open>Exception\<close> (what \<^verbatim>\<open>except Exception\<close> tests) and
  by what \<^verbatim>\<open>str(e)\<close> does; \<^verbatim>\<open>str\<close> runs \<^verbatim>\<open>__str__\<close>, which is user code for a
  user-defined class, so it may return a string, raise, or never return.

  Strings are lists of characters with code points below 256, which covers every
  literal of the source files.
\<close>

datatype pyexc = PyExc (exc_class: string) (is_Exception: bool) (exc_str: str_outcome)
  and str_outcome = StrOk string | StrRaises pyexc | StrLoops

datatype pyval = PyNone | PyBool bool | PyInt int | PyStr string | PyObj str_outcome

definition digit_char :: "nat \<Rightarrow> char" where
  "digit_char d = ''0123456789'' ! d"

fun str_nat :: "nat \<Rightarrow> string" where
  "str_nat n = (if n < 10 then [digit_char n] else str_nat (n div 10) @ [digit_char (n mod 10)])"

declare str_nat.simps [simp del]

definition str_int :: "int \<Rightarrow> string" where
  "str_int i = (if i < 0 then CHR ''-'' # str_nat (nat (- i)) else str_nat (nat i))"

text \<open>\<^verbatim>\<open>str(x)\<close>. An object of any other class is \<open>PyObj r\<close>, with \<open>r\<close> what its
  \<^verbatim>\<open>__str__\<close> does.\<close>

fun py_str :: "pyval \<Rightarrow> str_outcome" where
  "py_str PyNone = StrOk ''None''"
| "py_str (PyBool b) = StrOk (if b then ''True'' else ''False'')"
| "py_str (PyInt i) = StrOk (str_int i)"
| "py_str (PyStr s) = StrOk s"
| "py_str (PyObj r) = r"

text \<open>A namespace is a Python dict from names to values: an association list in
  insertion order, read with \<open>map_of\<close> and written with \<open>AList.update\<close>.\<close>

type_synonym namespace = "(string \<times> pyval) list"

text \<open>\<^verbatim>\<open>d.get(k, default)\<close>\<close>

definition dict_get :: "namespace \<Rightarrow> string \<Rightarrow> pyval \<Rightarrow> pyval" where
  "dict_get d k dflt = (case map_of d k of Some v \<Rightarrow> v | None \<Rightarrow> dflt)"

section \<open>The execution tool\<close>

text \<open>
  \<^verbatim>\<open>exec(python_code, globals(), local_namespace)\<close> is the interpreter itself. What it
  does with a text is one of three things: it completes, it raises, or it never
  returns; in the first two cases it may have written to both dictionaries it was
  given. \<open>ExecDone g l\<close> and \<open>ExecRaised e g l\<close> carry the globals and the local
  namespace as \<^verbatim>\<open>exec\<close> left them.
\<close>

datatype exec_outcome =
    ExecDone namespace namespace
  | ExecRaised pyexc namespace namespace
  | ExecLoops

type_synonym py_exec = "string \<Rightarrow> namespace \<Rightarrow> namespace \<Rightarrow> exec_outcome"

text \<open>What a call of \<^verbatim>\<open>_run\<close> does: it returns a string, an exception leaves it, or it
  never returns. The first two carry the module globals after the call, which the
  next call will pass to \<^verbatim>\<open>exec\<close> again.\<close>

datatype run_outcome =
    Returned string namespace
  | Propagated pyexc namespace
  | NoReturn

text \<open>\<^verbatim>\<open>'Nenhum resultado capturado. A variavel "resultado" nao foi definida no codigo
  executado.'\<close> with the accents of the source (a-acute 0xE1, a-tilde 0xE3, o-acute
  0xF3).\<close>

definition no_result_message :: string where
  "no_result_message =
     ''Nenhum resultado capturado. A vari'' @ [CHR 0xE1] @ ''vel '' @ [CHR 0x22] @ ''resultado''
     @ [CHR 0x22] @ '' n'' @ [CHR 0xE3] @ ''o foi definida no c'' @ [CHR 0xF3] @ ''digo executado.''"

definition error_prefix :: string where
  "error_prefix = ''Erro ao executar o c'' @ [CHR 0xF3] @ ''digo Python: ''"

text \<open>
  The handler \<^verbatim>\<open>except Exception as e: return f"Erro ...: {type(e).__name__}: {e}"\<close>.
  It is entered only for an instance of \<^verbatim>\<open>Exception\<close>; anything else keeps
  propagating. Formatting \<^verbatim>\<open>{e}\<close> calls \<^verbatim>\<open>str(e)\<close> inside the handler, where nothing
  catches what it raises.
\<close>

definition except_Exception :: "pyexc \<Rightarrow> namespace \<Rightarrow> run_outcome" where
  "except_Exception e g =
     (if is_Exception e then
        (case exc_str e of
           StrOk m \<Rightarrow> Returned (error_prefix @ exc_class e @ '': '' @ m) g
         | StrRaises e' \<Rightarrow> Propagated e' g
         | StrLoops \<Rightarrow> NoReturn)
      else Propagated e g)"

text \<open>
  \<^verbatim>\<open>ExecutePythonCodeTool._run(self, python_code)\<close>. The interpreter \<open>exec\<close> and the
  module's globals dictionary are explicit arguments. \<^verbatim>\<open>str(resultado)\<close> is inside the
  \<^verbatim>\<open>try\<close>, so what it raises goes to the handler as well.
\<close>

definition ExecutePythonCodeTool_run :: "py_exec \<Rightarrow> string \<Rightarrow> namespace \<Rightarrow> run_outcome" where
  "ExecutePythonCodeTool_run exec python_code globals =
     (let local_namespace = [] in
      case exec python_code globals local_namespace of
        ExecDone g l \<Rightarrow>
          (let resultado = dict_get l ''resultado'' (PyStr no_result_message) in
           case py_str resultado of
             StrOk s \<Rightarrow> Returned s g
           | StrRaises e \<Rightarrow> except_Exception e g
           | StrLoops \<Rightarrow> NoReturn)
      | ExecRaised e g l \<Rightarrow> except_Exception e g
      | ExecLoops \<Rightarrow> NoReturn)"

section \<open>A fragment of Python, to run concrete program texts\<close>

text \<open>
  The theorems about the tool hold for every interpreter \<open>exec\<close>. To run the tool on an
  actual text, this section gives the meaning of a small, line-oriented fragment of
  Python, as CPython's \<^verbatim>\<open>exec(text, globals, locals)\<close> with two distinct dictionaries
  executes it. Each line is one of
  \<^verbatim>\<open>global NAME\<close>, \<^verbatim>\<open>pass\<close>, \<^verbatim>\<open>NAME = EXPR\<close>, \<^verbatim>\<open>raise CLASS(ATOM)\<close>, \<^verbatim>\<open>while True: pass\<close>
  with \<^verbatim>\<open>EXPR ::= ATOM | INT+INT\<close> and \<^verbatim>\<open>ATOM ::= None | INT | 'chars' | NAME\<close>,
  written without extra blanks; \<^verbatim>\<open>global\<close> lines come first. A text outside the
  fragment gets no meaning (\<open>None\<close>).
\<close>

datatype expr = Lit pyval | Plus nat nat | Var string

datatype stmt = Global string | Pass | Assign string expr | Raise string expr | WhileTruePass

definition python_keywords :: "string list" where
  "python_keywords =
     [''and'', ''as'', ''assert'', ''async'', ''await'', ''break'', ''class'', ''continue'',
      ''def'', ''del'', ''elif'', ''else'', ''except'', ''finally'', ''for'', ''from'',
      ''global'', ''if'', ''import'', ''in'', ''is'', ''lambda'', ''nonlocal'', ''not'', ''or'',
      ''pass'', ''raise'', ''return'', ''try'', ''while'', ''with'', ''yield'']"

text \<open>The names of the \<^verbatim>\<open>builtins\<close> module written in lower-case letters only. A name
  that is bound nowhere else and stands in this list denotes a builtin object, which
  the fragment does not model.\<close>

definition python_builtins :: "string list" where
  "python_builtins =
     [''abs'', ''aiter'', ''all'', ''anext'', ''any'', ''ascii'', ''bin'', ''bool'',
      ''breakpoint'', ''bytearray'', ''bytes'', ''callable'', ''chr'', ''classmethod'',
      ''compile'', ''complex'', ''copyright'', ''credits'', ''delattr'', ''dict'', ''dir'',
      ''divmod'', ''enumerate'', ''eval'', ''exec'', ''exit'', ''filter'', ''float'',
      ''format'', ''frozenset'', ''getattr'', ''globals'', ''hasattr'', ''hash'', ''help'',
      ''hex'', ''id'', ''input'', ''int'', ''isinstance'', ''issubclass'', ''iter'', ''len'',
      ''license'', ''list'', ''locals'', ''map'', ''max'', ''memoryview'', ''min'', ''next'',
      ''object'', ''oct'', ''open'', ''ord'', ''pow'', ''print'', ''property'', ''quit'',
      ''range'', ''repr'', ''reversed'', ''round'', ''set'', ''setattr'', ''slice'',
      ''sorted'', ''staticmethod'', ''str'', ''sum'', ''super'', ''tuple'', ''type'', ''vars'',
      ''zip'']"

text \<open>Builtin exception classes whose \<^verbatim>\<open>__str__\<close> is \<^verbatim>\<open>BaseException.__str__\<close>, each
  with whether it derives from \<^verbatim>\<open>Exception\<close>. \<^verbatim>\<open>SystemExit\<close>, \<^verbatim>\<open>KeyboardInterrupt\<close> and
  \<^verbatim>\<open>GeneratorExit\<close> derive from \<^verbatim>\<open>BaseException\<close> directly.\<close>

definition builtin_exceptions :: "(string \<times> bool) list" where
  "builtin_exceptions =
     [(''BaseException'', False), (''Exception'', True), (''ValueError'', True),
      (''TypeError'', True), (''RuntimeError'', True), (''SystemExit'', False),
      (''KeyboardInterrupt'', False), (''GeneratorExit'', False)]"

subsection \<open>Reading a text\<close>

fun lines_of :: "string \<Rightarrow> string list" where
  "lines_of [] = [[]]"
| "lines_of (c # cs) =
     (if c = CHR 0x0A then [] # lines_of cs
      else (case lines_of cs of [] \<Rightarrow> [[c]] | l # ls \<Rightarrow> (c # l) # ls))"

definition strip_prefix :: "string \<Rightarrow> string \<Rightarrow> string option" where
  "strip_prefix p s = (if take (length p) s = p then Some (drop (length p) s) else None)"

definition is_lower :: "char \<Rightarrow> bool" where
  "is_lower c = (97 \<le> (of_char c :: nat) \<and> (of_char c :: nat) \<le> 122)"

definition is_alpha :: "char \<Rightarrow> bool" where
  "is_alpha c = (is_lower c \<or> (65 \<le> (of_char c :: nat) \<and> (of_char c :: nat) \<le> 90))"

definition is_digit :: "char \<Rightarrow> bool" where
  "is_digit c = (48 \<le> (of_char c :: nat) \<and> (of_char c :: nat) \<le> 57)"

text \<open>Characters allowed between the quotes of a string literal: printable ASCII
  other than the quote and the backslash.\<close>

definition is_plain :: "char \<Rightarrow> bool" where
  "is_plain c = (32 \<le> (of_char c :: nat) \<and> (of_char c :: nat) \<le> 126
                 \<and> c \<noteq> CHR 0x27 \<and> c \<noteq> CHR 0x5C)"

definition is_name :: "string \<Rightarrow> bool" where
  "is_name s = (s \<noteq> [] \<and> list_all is_lower s \<and> s \<notin> set python_keywords)"

text \<open>A decimal literal; Python rejects a leading zero on a non-zero literal.\<close>

definition parse_nat :: "string \<Rightarrow> nat option" where
  "parse_nat s =
     (if s \<noteq> [] \<and> list_all is_digit s \<and> (hd s \<noteq> CHR ''0'' \<or> list_all (\<lambda>c. c = CHR ''0'') s)
      then Some (foldl (\<lambda>a c. 10 * a + (of_char c - 48)) 0 s)
      else None)"

definition parse_atom :: "string \<Rightarrow> expr option" where
  "parse_atom s =
     (if s = ''None'' then Some (Lit PyNone)
      else if 2 \<le> length s \<and> hd s = CHR 0x27 \<and> last s = CHR 0x27
              \<and> list_all is_plain (butlast (tl s))
      then Some (Lit (PyStr (butlast (tl s))))
      else (case parse_nat s of
              Some n \<Rightarrow> Some (Lit (PyInt (int n)))
            | None \<Rightarrow> if is_name s then Some (Var s) else None))"

definition parse_expr :: "string \<Rightarrow> expr option" where
  "parse_expr s =
     (case (parse_nat (takeWhile is_digit s), strip_prefix ''+'' (dropWhile is_digit s)) of
        (Some a, Some r) \<Rightarrow> (case parse_nat r of Some b \<Rightarrow> Some (Plus a b) | None \<Rightarrow> None)
      | _ \<Rightarrow> parse_atom s)"

definition parse_raise :: "string \<Rightarrow> stmt option" where
  "parse_raise s =
     (let cls = takeWhile is_alpha s; r = dropWhile is_alpha s in
      if cls \<in> fst ` set builtin_exceptions \<and> 2 \<le> length r \<and> hd r = CHR ''('' \<and> last r = CHR '')''
      then map_option (Raise cls) (parse_atom (butlast (tl r)))
      else None)"

definition parse_line :: "string \<Rightarrow> stmt option" where
  "parse_line s =
     (if s = ''pass'' then Some Pass
      else if s = ''while True: pass'' then Some WhileTruePass
      else (case strip_prefix ''global '' s of
              Some n \<Rightarrow> if is_name n then Some (Global n) else None
            | None \<Rightarrow>
        (case strip_prefix ''raise '' s of
              Some r \<Rightarrow> parse_raise r
            | None \<Rightarrow>
        (let n = takeWhile is_lower s in
         case strip_prefix '' = '' (dropWhile is_lower s) of
              Some e \<Rightarrow> if is_name n then map_option (Assign n) (parse_expr e) else None
            | None \<Rightarrow> None))))"

fun is_Global :: "stmt \<Rightarrow> bool" where
  "is_Global (Global n) = True"
| "is_Global _ = False"

fun declared :: "stmt list \<Rightarrow> string list" where
  "declared [] = []"
| "declared (Global n # ss) = n # declared ss"
| "declared (_ # ss) = declared ss"

text \<open>Blank lines are skipped; every \<^verbatim>\<open>global\<close> line precedes every other statement.\<close>

definition parse_program :: "string \<Rightarrow> stmt list option" where
  "parse_program text =
     (case those (map parse_line (filter (\<lambda>l. l \<noteq> []) (lines_of text))) of
        Some ss \<Rightarrow> if list_all (\<lambda>s. \<not> is_Global s) (dropWhile is_Global ss) then Some ss else None
      | None \<Rightarrow> None)"

subsection \<open>Running a program\<close>

definition NameError :: "string \<Rightarrow> pyexc" where
  "NameError n = PyExc ''NameError'' True (StrOk (''name '' @ [CHR 0x27] @ n @ [CHR 0x27] @ '' is not defined''))"

text \<open>
  Reading a name. A name declared \<^verbatim>\<open>global\<close> is looked up in the globals, any other
  name in the local namespace first and then in the globals; after that come the
  builtins, and a name found nowhere raises \<^verbatim>\<open>NameError\<close>.
\<close>

definition load_name :: "string list \<Rightarrow> namespace \<Rightarrow> namespace \<Rightarrow> string \<Rightarrow> (pyexc + pyval) option" where
  "load_name decl g l n =
     (case (if n \<in> set decl then None else map_of l n) of
        Some v \<Rightarrow> Some (Inr v)
      | None \<Rightarrow>
         (case map_of g n of
            Some v \<Rightarrow> Some (Inr v)
          | None \<Rightarrow> if n \<in> set python_builtins then None else Some (Inl (NameError n))))"

fun eval_expr :: "string list \<Rightarrow> namespace \<Rightarrow> namespace \<Rightarrow> expr \<Rightarrow> (pyexc + pyval) option" where
  "eval_expr decl g l (Lit v) = Some (Inr v)"
| "eval_expr decl g l (Plus a b) = Some (Inr (PyInt (int a + int b)))"
| "eval_expr decl g l (Var n) = load_name decl g l n"

text \<open>
  An assignment stores into the globals when the name is declared \<^verbatim>\<open>global\<close>, into
  the local namespace otherwise. \<^verbatim>\<open>raise C(a)\<close> builds an instance whose \<^verbatim>\<open>str\<close> is that
  of its single argument; where the class name is rebound in either dictionary the
  fragment gives no meaning.
\<close>

fun exec_stmts :: "string list \<Rightarrow> stmt list \<Rightarrow> namespace \<Rightarrow> namespace \<Rightarrow> exec_outcome option" where
  "exec_stmts decl [] g l = Some (ExecDone g l)"
| "exec_stmts decl (Global n # ss) g l = exec_stmts decl ss g l"
| "exec_stmts decl (Pass # ss) g l = exec_stmts decl ss g l"
| "exec_stmts decl (WhileTruePass # ss) g l = Some ExecLoops"
| "exec_stmts decl (Assign n e # ss) g l =
     (case eval_expr decl g l e of
        None \<Rightarrow> None
      | Some (Inl ex) \<Rightarrow> Some (ExecRaised ex g l)
      | Some (Inr v) \<Rightarrow>
          if n \<in> set decl then exec_stmts decl ss (AList.update n v g) l
          else exec_stmts decl ss g (AList.update n v l))"
| "exec_stmts decl (Raise cls e # ss) g l =
     (if map_of l cls \<noteq> None \<or> map_of g cls \<noteq> None then None
      else case map_of builtin_exceptions cls of
        None \<Rightarrow> None
      | Some derives \<Rightarrow>
         (case eval_expr decl g l e of
            None \<Rightarrow> None
          | Some (Inl ex) \<Rightarrow> Some (ExecRaised ex g l)
          | Some (Inr v) \<Rightarrow> Some (ExecRaised (PyExc cls derives (py_str v)) g l)))"

definition exec_fragment :: "string \<Rightarrow> namespace \<Rightarrow> namespace \<Rightarrow> exec_outcome option" where
  "exec_fragment text g l =
     (case parse_program text of
        Some ss \<Rightarrow> exec_stmts (declared ss) ss g l
      | None \<Rightarrow> None)"

text \<open>The interpreter handed to the tool in the concrete runs below. It is specified on
  the fragment only.\<close>

definition python_exec :: py_exec where
  "python_exec text g l = (case exec_fragment text g l of Some out \<Rightarrow> out | None \<Rightarrow> undefined)"

text \<open>The globals of module \<^verbatim>\<open>custom_tool_vendas\<close> as far as their string form is fixed
  by the file itself. The imported \<^verbatim>\<open>BaseTool\<close> and the dunder entries are objects of
  the library and the interpreter; no text below reads them.\<close>

definition module_globals :: namespace where
  "module_globals =
     [(''__name__'', PyStr ''custom_tool_vendas''),
      (''ExecutePythonCodeTool'', PyObj (StrOk (''<class '' @ [CHR 0x27] @ ''custom_tool_vendas.ExecutePythonCodeTool'' @ [CHR 0x27] @ ''>'')))]"

text \<open>Successive invocations of the tool in one process: each call passes the module
  globals as the previous call left them. Nothing follows a call that never returns.\<close>

fun run_successively :: "py_exec \<Rightarrow> string list \<Rightarrow> namespace \<Rightarrow> run_outcome list" where
  "run_successively exec [] g = []"
| "run_successively exec (python_code # rest) g =
     (case ExecutePythonCodeTool_run exec python_code g of
        Returned s g' \<Rightarrow> Returned s g' # run_successively exec rest g'
      | Propagated e g' \<Rightarrow> Propagated e g' # run_successively exec rest g'
      | NoReturn \<Rightarrow> [NoReturn])"

text \<open>An interpreter that is only ever handed an empty local namespace.\<close>

definition with_fresh_locals :: "py_exec \<Rightarrow> py_exec" where
  "with_fresh_locals exec python_code g l = exec python_code g []"


section \<open>The connection provider\<close>

text \<open>
  \<^verbatim>\<open>db_config.py\<close>. The process environment is a map from variable names to strings;
  \<^verbatim>\<open>os.getenv(key)\<close> is the value of the variable, or \<^verbatim>\<open>None\<close> when it is unset.
\<close>

type_synonym environ = "string \<rightharpoonup> string"

definition os_getenv :: "environ \<Rightarrow> string \<Rightarrow> string option" where
  "os_getenv env key = env key"

text \<open>Truth value of a string or \<^verbatim>\<open>None\<close>, as \<^verbatim>\<open>all(...)\<close> tests it: \<^verbatim>\<open>None\<close> and the empty
  string are false.\<close>

fun truthy :: "string option \<Rightarrow> bool" where
  "truthy None = False"
| "truthy (Some s) = (s \<noteq> [])"

definition params_warning :: string where
  "params_warning = ''Warning: Not all database connection parameters are set in .env file.''"

text \<open>
  \<^verbatim>\<open>get_db_connection_params()\<close>. It returns the dict \<^verbatim>\<open>params\<close>, here the list of its
  items in insertion order; the second component is what the call printed.
\<close>

definition get_db_connection_params :: "environ \<Rightarrow> (string \<times> string option) list \<times> string list" where
  "get_db_connection_params env =
     (let params =
        [(''host'', os_getenv env ''DB_HOST''),
         (''user'', os_getenv env ''DB_USER''),
         (''password'', os_getenv env ''DB_PASSWORD''),
         (''database'', os_getenv env ''DB_NAME'')]
      in (params, if \<not> list_all truthy (map snd params) then [params_warning] else []))"

section \<open>The sales report crew\<close>

text \<open>
  \<^verbatim>\<open>crew_sales_report.py\<close>. Agents, tasks and the crew are the configuration objects
  that \<^verbatim>\<open>SalesReportCrew._setup_crew\<close> builds; their texts are the string literals of
  the file, with the accented letters as character codes.
\<close>

record agent =
  role :: string
  goal :: string
  backstory :: string
  memory :: bool
  verbose :: bool
  llm :: string

datatype tool = ExecutePythonCodeTool

text \<open>A task; \<open>task_context\<close> is \<open>None\<close> where the \<^verbatim>\<open>context\<close> argument is not given.\<close>

datatype task =
  Task (description: string) (expected_output: string) (task_agent: agent)
       (tools: "tool list") (task_context: "task list option")

datatype process = sequential

record crew =
  agents :: "agent list"
  tasks :: "task list"
  process :: process

text \<open>\<^verbatim>\<open>self.llm\<close>, set by \<^verbatim>\<open>__init__\<close> before \<^verbatim>\<open>_setup_crew\<close> runs.\<close>

definition self_llm :: string where
  "self_llm = ''gpt-4o-mini''"

definition analista_dados :: agent where
  "analista_dados =
     \<lparr>role = ''Analista de Dados'',
      goal =
       ''Criar scripts Python concisos para interagir com um banco de dados Maria''
       @ ''DB (usando `mysql.connector` e `db_config.get_db_connection_params()`) p''
       @ ''ara extrair e processar informa'' @ [CHR 0xE7, CHR 0xF5] @ ''es da tabela ''
       @ [CHR 0x27] @ ''vendas'' @ [CHR 0x27] @ '', com base na solicita'' @ [CHR 0xE7, CHR 0xE3]
       @ ''o do usu'' @ [CHR 0xE1]
       @ ''rio. O script deve atribuir o resultado final (uma string ou representa''
       @ [CHR 0xE7, CHR 0xE3] @ ''o de string dos dados) a uma vari'' @ [CHR 0xE1]
       @ ''vel chamada `resultado`.'',
      backstory =
       ''Voc'' @ [CHR 0xEA] @ '' '' @ [CHR 0xE9]
       @ '' um programador Python experiente, especialista em automa'' @ [CHR 0xE7, CHR 0xE3]
       @ ''o de tarefas de dados e intera'' @ [CHR 0xE7, CHR 0xE3]
       @ ''o com bancos de dados SQL. Voc'' @ [CHR 0xEA] @ '' '' @ [CHR 0xE9]
       @ '' proficiente em escrever scripts Python que usam `mysql.connector` para ''
       @ ''se conectar a MariaDB, buscar detalhes de conex'' @ [CHR 0xE3]
       @ ''o de `db_config.get_db_connection_params()`, executar consultas SQL e pr''
       @ ''ocessar os resultados. Seus scripts s'' @ [CHR 0xE3]
       @ ''o limpos, eficientes e sempre definem uma vari'' @ [CHR 0xE1]
       @ ''vel `resultado` com a sa'' @ [CHR 0xED] @ ''da final.'',
      memory = True, verbose = True, llm = self_llm\<rparr>"

definition redator :: agent where
  "redator =
     \<lparr>role = ''Redator'',
      goal =
       ''Escrever um par'' @ [CHR 0xE1]
       @ ''grafo baseado no contexto fornecido pelo Analista de Dados e pela solici'' @ ''ta''
       @ [CHR 0xE7, CHR 0xE3] @ ''o {query}.'',
      backstory =
       ''Voc'' @ [CHR 0xEA] @ '' '' @ [CHR 0xE9]
       @ '' um escritor habilidoso, capaz de transformar dados t'' @ [CHR 0xE9] @ ''cnicos e an''
       @ [CHR 0xE1] @ ''lises \<newline>''
       @ ''                em textos claros e cativantes, sempre mantendo um tom fo''
       @ ''rmal e direcionado ao chefe.'',
      memory = False, verbose = True, llm = self_llm\<rparr>"

definition triple_quote :: string where
  "triple_quote = [CHR 0x22, CHR 0x22, CHR 0x22]"

text \<open>
  The text that stands between the first and the last \<^verbatim>\<open>"""\<close> of the \<^verbatim>\<open>description\<close>
  argument of \<^verbatim>\<open>task_python_db_query\<close> (lines 63 to 133 of the file): the instructions
  to the analyst with the example script. The example assigns a query in triple
  quotes, so the text has three parts with \<^verbatim>\<open>"""\<close> between them; each part is given
  piece by piece, a piece ending where a line ends or a coded character begins.
\<close>

definition query_text_before_sql :: string where
  "query_text_before_sql =
     concat
      [''\<newline>'',
       ''                Dada a solicita'',
       [CHR 0xE7, CHR 0xE3],
       ''o do usu'',
       [CHR 0xE1],
       ''rio delimitada por <query>, crie um script Python para consultar a tabel'',
       ''a '',
       [CHR 0x27],
       ''vendas'',
       [CHR 0x27],
       '' em um banco de dados MariaDB.\<newline>'',
       ''\<newline>'',
       ''                O script Python gerado DEVE:\<newline>'',
       ''                1. Importar `mysql.connector` e `get_db_connection_param'',
       ''s` from `db_config`. Podem ser importados outros m'',
       [CHR 0xF3],
       ''dulos como `pandas` se for util.\<newline>'',
       ''                2. Chamar `db_params = get_db_connection_params()` para '',
       ''obter os detalhes da conex'',
       [CHR 0xE3],
       ''o.\<newline>'',
       ''                3. Verificar se todos os `db_params` foram carregados (h'',
       ''ost, user, password, database). Se n'',
       [CHR 0xE3],
       ''o, definir `resultado` como uma mensagem de erro apropriada.\<newline>'',
       ''                4. Estabelecer uma conex'',
       [CHR 0xE3],
       ''o com o banco de dados MariaDB usando `mysql.connector.connect(**db_para'',
       ''ms)`.\<newline>'',
       ''                5. Construir a consulta SQL necess'',
       [CHR 0xE1],
       ''ria para atender '',
       [CHR 0xE0],
       '' <query> do usu'',
       [CHR 0xE1],
       ''rio. A tabela '',
       [CHR 0x27],
       ''vendas'',
       [CHR 0x27],
       '' tem as colunas: `Data da Venda`, `ID da Venda`, `ID do Cliente`, `Nome '',
       ''do Cliente`, `Produto`, `ID do Produto`, `Categoria`, `Pre'',
       [CHR 0xE7],
       ''o Unit'',
       [CHR 0xE1],
       ''rio`, `Quantidade`, `Valor Total`, `Meio de Pagamento`, `Vendedor`, `Reg'',
       ''i'',
       [CHR 0xE3],
       ''o`, `Status da Venda`.\<newline>'',
       ''                6. Executar a consulta SQL.\<newline>'',
       ''                7. Buscar os resultados (por exemplo, para uma lista de '',
       ''tuplas ou um DataFrame pandas se a an'',
       [CHR 0xE1],
       ''lise for complexa).\<newline>'',
       ''                8. Formatar os resultados em uma string clara e concisa.'',
       ''\<newline>'',
       ''                9. **Atribuir esta string final '',
       [CHR 0xE0],
       '' vari'',
       [CHR 0xE1],
       ''vel `resultado`**. Esta vari'',
       [CHR 0xE1],
       ''vel '',
       [CHR 0xE9],
       '' o que ser'',
       [CHR 0xE1],
       '' retornado pela ferramenta.\<newline>'',
       ''                10. Incluir tratamento de erros (blocos try/except) para'',
       '' opera'',
       [CHR 0xE7, CHR 0xF5],
       ''es de banco de dados e outras partes do script. Em caso de erro, `result'',
       ''ado` deve conter uma mensagem de erro descritiva.\<newline>'',
       ''                11. Fechar o cursor e a conex'',
       [CHR 0xE3],
       ''o do banco de dados em um bloco `finally`.\<newline>'',
       ''                12. Usar `LIMIT` nas consultas SQL para restringir a sa'',
       [CHR 0xED],
       ''da a um m'',
       [CHR 0xE1],
       ''ximo de 20 resultados, a menos que a <query> pe'',
       [CHR 0xE7],
       ''a explicitamente por todos os dados ou um n'',
       [CHR 0xFA],
       ''mero diferente.\<newline>'',
       ''\<newline>'',
       ''                <query>\<newline>'',
       ''                {query}\<newline>'',
       ''                </query>\<newline>'',
       ''\<newline>'',
       ''                <exemplo_solicitacao>\<newline>'',
       ''                Qual foi o produto mais vendido em termos de quantidade?'',
       ''\<newline>'',
       ''                </exemplo_solicitacao>\<newline>'',
       ''\<newline>'',
       ''                <exemplo_codigo_python>\<newline>'',
       ''                import mysql.connector\<newline>'',
       ''                from db_config import get_db_connection_params\<newline>'',
       ''                import pandas as pd # Opcional, mas pode ser '',
       [CHR 0xFA],
       ''til\<newline>'',
       ''\<newline>'',
       ''                resultado = '',
       [CHR 0x22, CHR 0x22],
       ''\<newline>'',
       ''                cnx = None\<newline>'',
       ''                cursor = None\<newline>'',
       ''                try:\<newline>'',
       ''                    db_params = get_db_connection_params()\<newline>'',
       ''                    if not all(db_params.get(key) for key in ['',
       [CHR 0x27],
       ''host'',
       [CHR 0x27],
       '', '',
       [CHR 0x27],
       ''user'',
       [CHR 0x27],
       '', '',
       [CHR 0x27],
       ''password'',
       [CHR 0x27],
       '', '',
       [CHR 0x27],
       ''database'',
       [CHR 0x27],
       '']):\<newline>'',
       ''                        resultado = '',
       [CHR 0x22],
       ''Erro: Par'',
       [CHR 0xE2],
       ''metros de conex'',
       [CHR 0xE3],
       ''o com o banco de dados n'',
       [CHR 0xE3],
       ''o configurados completamente no .env.'',
       [CHR 0x22],
       ''\<newline>'',
       ''                    else:\<newline>'',
       ''                        cnx = mysql.connector.connect(**db_params)\<newline>'',
       ''                        cursor = cnx.cursor()\<newline>'',
       ''                        \<newline>'',
       ''                        query = '']"

definition query_text_sql :: string where
  "query_text_sql =
     concat
      [''\<newline>'',
       ''                        SELECT Produto, SUM(Quantidade) AS TotalQuantida'',
       ''de\<newline>'',
       ''                        FROM vendas\<newline>'',
       ''                        GROUP BY Produto\<newline>'',
       ''                        ORDER BY TotalQuantidade DESC\<newline>'',
       ''                        LIMIT 1;\<newline>'',
       ''                        '']"

definition query_text_after_sql :: string where
  "query_text_after_sql =
     concat
      [''\<newline>'',
       ''                        cursor.execute(query)\<newline>'',
       ''                        data = cursor.fetchall()\<newline>'',
       ''\<newline>'',
       ''                        if data:\<newline>'',
       ''                            # Exemplo de formata'',
       [CHR 0xE7, CHR 0xE3],
       ''o do resultado\<newline>'',
       ''                            df = pd.DataFrame(data, columns=[i[0] for i '',
       ''in cursor.description])\<newline>'',
       ''                            resultado = f'',
       [CHR 0x22],
       ''O produto mais vendido em quantidade foi: {df.iloc[0]['',
       [CHR 0x27],
       ''Produto'',
       [CHR 0x27],
       '']} com {df.iloc[0]['',
       [CHR 0x27],
       ''TotalQuantidade'',
       [CHR 0x27],
       '']} unidades.'',
       [CHR 0x22],
       ''\<newline>'',
       ''                        else:\<newline>'',
       ''                            resultado = '',
       [CHR 0x22],
       ''Nenhum produto encontrado.'',
       [CHR 0x22],
       ''\<newline>'',
       ''                    \<newline>'',
       ''                except mysql.connector.Error as err:\<newline>'',
       ''                    resultado = f'',
       [CHR 0x22],
       ''Erro de banco de dados: {err}'',
       [CHR 0x22],
       ''\<newline>'',
       ''                except Exception as e:\<newline>'',
       ''                    resultado = f'',
       [CHR 0x22],
       ''Ocorreu um erro inesperado: {e}'',
       [CHR 0x22],
       ''\<newline>'',
       ''                finally:\<newline>'',
       ''                    if cursor is not None:\<newline>'',
       ''                        cursor.close()\<newline>'',
       ''                    if cnx is not None and cnx.is_connected():\<newline>'',
       ''                        cnx.close()\<newline>'',
       ''                </exemplo_codigo_python>\<newline>'',
       ''\<newline>'',
       ''                Certifique-se de que seu script Python esteja completo, '',
       ''correto e atribua a sa'',
       [CHR 0xED],
       ''da final '',
       [CHR 0xE0],
       '' vari'',
       [CHR 0xE1],
       ''vel `resultado`.\<newline>'',
       ''                '']"

definition query_task_text :: string where
  "query_task_text =
     query_text_before_sql @ triple_quote @ query_text_sql @ triple_quote @ query_text_after_sql"

definition write_task_description :: string where
  "write_task_description =
     ''\<newline>'' @ ''                    Use o contexto fornecido pela pesquisa do agente ''
     @ [CHR 0x27] @ ''analista_dados'' @ [CHR 0x27] @ '' para escrever um par'' @ [CHR 0xE1]
     @ ''grafo\<newline>'' @ ''                    que responda '' @ [CHR 0xE0] @ '' solicita''
     @ [CHR 0xE7, CHR 0xE3] @ ''o em {query}. O texto deve sempre come'' @ [CHR 0xE7]
     @ ''ar com '' @ [CHR 0x27] @ ''Oi Chefe'' @ [CHR 0x27] @ '' e explicar\<newline>''
     @ ''                    a resposta da maneira mais clara e informativa poss'' @ [CHR 0xED]
     @ ''vel. quando for escrever algum n'' @ [CHR 0xFA] @ ''mero de valores \<newline>''
     @ ''                    em reais, escreva por extenso.\<newline>''
     @ ''                    ''"

definition write_task_expected_output :: string where
  "write_task_expected_output =
     ''Um par'' @ [CHR 0xE1] @ ''grafo come'' @ [CHR 0xE7] @ ''ando com '' @ [CHR 0x27]
     @ ''Oi Chefe'' @ [CHR 0x27] @ '', explicando a resposta '' @ [CHR 0xE0] @ '' solicita''
     @ [CHR 0xE7, CHR 0xE3] @ ''o {query}.''"

text \<open>
  The two tasks. \<open>query_description\<close> is the value of the \<^verbatim>\<open>description\<close> argument of
  \<^verbatim>\<open>task_python_db_query\<close>; what Python makes of that argument is settled below. The
  analyst's task has the tool and no \<^verbatim>\<open>context\<close>; the writer's task has no tool and
  \<^verbatim>\<open>context=[task_python_db_query]\<close>.
\<close>

definition task_python_db_query :: "string \<Rightarrow> task" where
  "task_python_db_query query_description =
     Task query_description
       (''Um script Python que atenda '' @ [CHR 0xE0] @ '' solicita'' @ [CHR 0xE7, CHR 0xE3]
        @ ''o {query} e atribua o resultado a uma vari'' @ [CHR 0xE1] @ ''vel '' @ [CHR 0x27]
        @ ''resultado'' @ [CHR 0x27] @ ''.'')
       analista_dados [ExecutePythonCodeTool] None"

definition write_task :: "string \<Rightarrow> task" where
  "write_task query_description =
     Task write_task_description write_task_expected_output redator []
       (Some [task_python_db_query query_description])"

text \<open>\<^verbatim>\<open>SalesReportCrew._setup_crew\<close>: the value it stores in \<^verbatim>\<open>self.crew\<close>.\<close>

definition setup_crew :: "string \<Rightarrow> crew" where
  "setup_crew query_description =
     \<lparr>agents = [analista_dados, redator],
      tasks = [task_python_db_query query_description, write_task query_description],
      process = sequential\<rparr>"

subsection \<open>The description argument as Python reads it\<close>

text \<open>
  A long string literal opened by \<^verbatim>\<open>"""\<close> ends at the next \<^verbatim>\<open>"""\<close> that no backslash
  escapes. \<open>long_string_body s\<close> reads the text \<open>s\<close> that follows the opening quotes
  and gives the body of the literal with the text left after its closing quotes;
  \<open>None\<close> when the literal is never closed.
\<close>

fun long_string_body :: "string \<Rightarrow> (string \<times> string) option" where
  "long_string_body [] = None"
| "long_string_body (c # cs) =
     (if c = CHR 0x5C then
        (case cs of
           [] \<Rightarrow> None
         | d # ds \<Rightarrow> map_option (\<lambda>(b, r). (c # d # b, r)) (long_string_body ds))
      else if take 3 (c # cs) = triple_quote then Some ([], drop 2 cs)
      else map_option (\<lambda>(b, r). (c # b, r)) (long_string_body cs))"

text \<open>
  The same scan as an automaton, used to read a long text piece by piece: the state
  is the number of double quotes just seen, and \<open>None\<close> reports a backslash or a third
  quote in a row.
\<close>

fun quotes_seen :: "nat \<Rightarrow> string \<Rightarrow> nat option" where
  "quotes_seen k [] = Some k"
| "quotes_seen k (c # cs) =
     (if c = CHR 0x5C then None
      else if c = CHR 0x22 then (if k = 2 then None else quotes_seen (Suc k) cs)
      else quotes_seen 0 cs)"

definition quotes_seen_next :: "string \<Rightarrow> nat option \<Rightarrow> nat option" where
  "quotes_seen_next piece s = (case s of None \<Rightarrow> None | Some k \<Rightarrow> quotes_seen k piece)"

text \<open>Inside parentheses, blanks and line ends separate tokens and mean nothing else.\<close>

definition skip_blanks :: "string \<Rightarrow> string" where
  "skip_blanks s = dropWhile (\<lambda>c. c = CHR '' '' \<or> c = CHR 0x0A) s"

datatype crew_error = SyntaxError | TaskFailed string | NoTaskOutput

text \<open>
  A parenthesised argument that starts with a long string literal. When the closing
  parenthesis follows the literal, the argument is that string. When a name follows
  the literal that is neither a keyword nor the prefix of a further string literal,
  the text is not an expression and compiling the file fails with \<^verbatim>\<open>SyntaxError\<close>.
  Other continuations do not occur here (\<open>None\<close>).
\<close>

definition parenthesised_long_string :: "string \<Rightarrow> (crew_error + string) option" where
  "parenthesised_long_string s =
     (case strip_prefix ''('' s of
        None \<Rightarrow> None
      | Some s1 \<Rightarrow>
     (case strip_prefix triple_quote (skip_blanks s1) of
        None \<Rightarrow> None
      | Some s2 \<Rightarrow>
     (case long_string_body s2 of
        None \<Rightarrow> Some (Inl SyntaxError)
      | Some (body, rest) \<Rightarrow>
          (let r = skip_blanks rest; word = takeWhile is_alpha r;
               after_word = take 1 (dropWhile is_alpha r) in
           if take 1 r = '')'' then Some (Inr body)
           else if word \<noteq> [] \<and> word \<notin> set python_keywords
                   \<and> after_word \<noteq> [CHR 0x22] \<and> after_word \<noteq> [CHR 0x27]
           then Some (Inl SyntaxError)
           else None))))"

text \<open>The \<^verbatim>\<open>description\<close> argument of \<^verbatim>\<open>task_python_db_query\<close> as it stands in the file,
  from the parenthesis of line 62 to the parenthesis of line 134.\<close>

definition description_argument :: string where
  "description_argument =
     ''(\<newline>                '' @ triple_quote @ query_task_text @ triple_quote
     @ ''\<newline>            )''"

text \<open>
  Loading the module \<^verbatim>\<open>crew_sales_report\<close>, which every use of \<^verbatim>\<open>SalesReportCrew\<close>
  starts with: the file is compiled as a whole before any of it runs, and only a file
  that compiles defines the class. The result is the crew that \<^verbatim>\<open>SalesReportCrew()\<close>
  holds in \<^verbatim>\<open>self.crew\<close>.
\<close>

definition load_SalesReportCrew :: "(crew_error + crew) option" where
  "load_SalesReportCrew =
     (case parenthesised_long_string description_argument of
        None \<Rightarrow> None
      | Some (Inl e) \<Rightarrow> Some (Inl e)
      | Some (Inr query_description) \<Rightarrow> Some (Inr (setup_crew query_description)))"

subsection \<open>Running the crew\<close>

text \<open>
  Executing one task is the work of the crewAI library and of the language model
  behind the agent. It is a parameter: from the task (with its agent and tools), the
  inputs of the run, the context and the state of the world outside, an executor
  either fails or gives the raw output of the task, and leaves a new outside state.
\<close>

type_synonym inputs = "(string \<times> string) list"

type_synonym 'w executor =
  "task \<Rightarrow> inputs \<Rightarrow> string list \<Rightarrow> 'w \<Rightarrow> (crew_error + string) \<times> 'w"

datatype event = Started task "string list" | Finished task string | Failed task crew_error

text \<open>
  The context handed to a task: the outputs of the tasks named in its \<^verbatim>\<open>context\<close>
  argument, as far as they have an output; without that argument, the outputs of
  the tasks run so far.
\<close>

definition context_of :: "task \<Rightarrow> (task \<times> string) list \<Rightarrow> string list" where
  "context_of t outs =
     (case task_context t of
        None \<Rightarrow> map snd outs
      | Some cs \<Rightarrow> List.map_filter (map_of outs) cs)"

text \<open>
  \<^verbatim>\<open>Process.sequential\<close>: the tasks run one after the other in the order of the
  \<^verbatim>\<open>tasks\<close> list, each after the previous one has given its output; a failure ends the
  run. The log records when each task starts, with its context, and how it ends.
\<close>

fun execute_tasks ::
  "'w executor \<Rightarrow> inputs \<Rightarrow> task list \<Rightarrow> (task \<times> string) list \<Rightarrow> 'w
     \<Rightarrow> (crew_error + string list) \<times> event list \<times> 'w" where
  "execute_tasks ex inp [] outs w = (Inr (map snd outs), [], w)"
| "execute_tasks ex inp (t # ts) outs w =
     (let ctx = context_of t outs in
      case ex t inp ctx w of
        (Inl e, w') \<Rightarrow> (Inl e, [Started t ctx, Failed t e], w')
      | (Inr out, w') \<Rightarrow>
          (case execute_tasks ex inp ts (outs @ [(t, out)]) w' of
             (r, log, w'') \<Rightarrow> (r, Started t ctx # Finished t out # log, w'')))"

record crew_output =
  raw :: string
  tasks_output :: "string list"

text \<open>\<^verbatim>\<open>Crew.kickoff(inputs=...)\<close>: the raw result is the output of the last task.\<close>

definition Crew_kickoff ::
  "'w executor \<Rightarrow> crew \<Rightarrow> inputs \<Rightarrow> 'w \<Rightarrow> (crew_error + crew_output) \<times> event list \<times> 'w" where
  "Crew_kickoff ex c inp w =
     (case process c of
        sequential \<Rightarrow>
          (case execute_tasks ex inp (tasks c) [] w of
             (Inl e, log, w') \<Rightarrow> (Inl e, log, w')
           | (Inr outs, log, w') \<Rightarrow>
               if outs = [] then (Inl NoTaskOutput, log, w')
               else (Inr \<lparr>raw = last outs, tasks_output = outs\<rparr>, log, w')))"

text \<open>\<^verbatim>\<open>SalesReportCrew.kickoff(self, query)\<close>, with \<open>self_crew\<close> the value of
  \<^verbatim>\<open>self.crew\<close>: it returns \<^verbatim>\<open>result.raw\<close> as it is.\<close>

definition SalesReportCrew_kickoff ::
  "'w executor \<Rightarrow> crew \<Rightarrow> string \<Rightarrow> 'w \<Rightarrow> (crew_error + string) \<times> event list \<times> 'w" where
  "SalesReportCrew_kickoff ex self_crew query w =
     (case Crew_kickoff ex self_crew [(''query'', query)] w of
        (Inl e, log, w') \<Rightarrow> (Inl e, log, w')
      | (Inr result, log, w') \<Rightarrow> (Inr (raw result), log, w'))"

text \<open>
  One invocation of the pipeline as a caller makes it: import the module, build
  \<^verbatim>\<open>SalesReportCrew()\<close>, call \<^verbatim>\<open>kickoff(query)\<close>.
\<close>

definition run_pipeline ::
  "'w executor \<Rightarrow> string \<Rightarrow> 'w \<Rightarrow> ((crew_error + string) \<times> event list \<times> 'w) option" where
  "run_pipeline ex query w =
     (case load_SalesReportCrew of
        None \<Rightarrow> None
      | Some (Inl e) \<Rightarrow> Some (Inl e, [], w)
      | Some (Inr self_crew) \<Rightarrow> Some (SalesReportCrew_kickoff ex self_crew query w))"


text \<open>What a log says about one task: the contexts it was started with, and the tasks
  started, in order.\<close>

fun contexts_handed_to :: "task \<Rightarrow> event list \<Rightarrow> string list list" where
  "contexts_handed_to t [] = []"
| "contexts_handed_to t (Started t' ctx # log) =
     (if t' = t then ctx # contexts_handed_to t log else contexts_handed_to t log)"
| "contexts_handed_to t (_ # log) = contexts_handed_to t log"

fun stages_started :: "event list \<Rightarrow> task list" where
  "stages_started [] = []"
| "stages_started (Started t ctx # log) = t # stages_started log"
| "stages_started (_ # log) = stages_started log"

section \<open>Properties of the execution tool\<close>

lemma run_ExecRaised:
  "exec python_code globals [] = ExecRaised e g l \<Longrightarrow>
   ExecutePythonCodeTool_run exec python_code globals = except_Exception e g"
  by (simp add: ExecutePythonCodeTool_run_def)

lemma run_ExecDone:
  "exec python_code globals [] = ExecDone g l \<Longrightarrow>
   ExecutePythonCodeTool_run exec python_code globals =
     (case py_str (dict_get l ''resultado'' (PyStr no_result_message)) of
        StrOk s \<Rightarrow> Returned s g
      | StrRaises e \<Rightarrow> except_Exception e g
      | StrLoops \<Rightarrow> NoReturn)"
  by (simp add: ExecutePythonCodeTool_run_def)















lemma exec_stmts_keeps_globals:
  "exec_stmts [] ss g l = Some out \<Longrightarrow>
   out = ExecLoops \<or> (\<exists>l'. out = ExecDone g l') \<or> (\<exists>e l'. out = ExecRaised e g l')"
proof (induction ss arbitrary: l)
  case Nil
  then show ?case by auto
next
  case (Cons s ss)
  show ?case
  proof (cases s)
    case (Global n)
    with Cons show ?thesis by simp
  next
    case Pass
    with Cons show ?thesis by simp
  next
    case (Assign n e)
    with Cons show ?thesis
      by (auto split: option.splits sum.splits)
  next
    case (Raise cls e)
    with Cons.prems show ?thesis
      by (auto split: option.splits sum.splits if_splits)
  next
    case WhileTruePass
    with Cons.prems show ?thesis by simp
  qed
qed

lemma except_Exception_keeps_globals:
  "except_Exception e g = NoReturn
   \<or> (\<exists>s. except_Exception e g = Returned s g)
   \<or> (\<exists>e'. except_Exception e g = Propagated e' g)"
  by (simp add: except_Exception_def split: str_outcome.splits)

lemma run_keeps_globals:
  assumes "exec python_code g [] = ExecLoops
           \<or> (\<exists>l'. exec python_code g [] = ExecDone g l')
           \<or> (\<exists>e l'. exec python_code g [] = ExecRaised e g l')"
  shows "ExecutePythonCodeTool_run exec python_code g = NoReturn
         \<or> (\<exists>s. ExecutePythonCodeTool_run exec python_code g = Returned s g)
         \<or> (\<exists>e. ExecutePythonCodeTool_run exec python_code g = Propagated e g)"
proof -
  consider (loops) "exec python_code g [] = ExecLoops"
    | (completed) l' where "exec python_code g [] = ExecDone g l'"
    | (raised) e l' where "exec python_code g [] = ExecRaised e g l'"
    using assms by blast
  then show ?thesis
  proof cases
    case loops
    then show ?thesis by (simp add: ExecutePythonCodeTool_run_def)
  next
    case completed
    show ?thesis
    proof (cases "py_str (dict_get l' ''resultado'' (PyStr no_result_message))")
      case (StrOk s)
      with completed show ?thesis by (simp add: run_ExecDone)
    next
      case (StrRaises e)
      with completed have "ExecutePythonCodeTool_run exec python_code g = except_Exception e g"
        by (simp add: run_ExecDone)
      then show ?thesis using except_Exception_keeps_globals [of e g] by simp
    next
      case StrLoops
      with completed show ?thesis by (simp add: run_ExecDone)
    qed
  next
    case raised
    then have "ExecutePythonCodeTool_run exec python_code g = except_Exception e g"
      by (rule run_ExecRaised)
    then show ?thesis using except_Exception_keeps_globals [of e g] by simp
  qed
qed

lemma run_fragment_keeps_globals:
  assumes "parse_program python_code = Some ss" and "declared ss = []"
    and "exec_fragment python_code g [] = Some out"
  shows "ExecutePythonCodeTool_run python_exec python_code g = NoReturn
         \<or> (\<exists>s. ExecutePythonCodeTool_run python_exec python_code g = Returned s g)
         \<or> (\<exists>e. ExecutePythonCodeTool_run python_exec python_code g = Propagated e g)"
proof -
  have "exec_stmts [] ss g [] = Some out"
    using assms by (simp add: exec_fragment_def)
  then have "out = ExecLoops \<or> (\<exists>l'. out = ExecDone g l') \<or> (\<exists>e l'. out = ExecRaised e g l')"
    by (rule exec_stmts_keeps_globals)
  moreover have "python_exec python_code g [] = out"
    using assms(3) by (simp add: python_exec_def)
  ultimately show ?thesis
    by (intro run_keeps_globals) simp
qed

lemma run_with_fresh_locals:
  "ExecutePythonCodeTool_run (with_fresh_locals exec) python_code globals =
   ExecutePythonCodeTool_run exec python_code globals"
  by (simp add: ExecutePythonCodeTool_run_def with_fresh_locals_def)

text \<open>
  C5 (as amended). Every invocation hands the interpreter a new, empty local
  namespace: the tool behaves the same with an interpreter that ignores the local
  namespace it is given and starts from an empty one. Hence a name bound as a local
  by one invocation (what a plain assignment does) is not carried into the next: a
  text of the fragment without a \<^verbatim>\<open>global\<close> declaration leaves the module globals as
  they were, and the invocations after it behave as if it had not run. The module
  globals themselves are shared by all invocations.
\<close>

theorem run_fresh_local_namespace:
  "ExecutePythonCodeTool_run (with_fresh_locals exec) python_code globals =
     ExecutePythonCodeTool_run exec python_code globals
   \<and> (parse_program first_code = Some ss \<and> declared ss = []
        \<and> exec_fragment first_code globals [] = Some out \<longrightarrow>
      run_successively python_exec (first_code # rest) globals = [NoReturn]
      \<or> (\<exists>r. run_successively python_exec (first_code # rest) globals =
               r # run_successively python_exec rest globals))"
proof (intro conjI impI)
  show "ExecutePythonCodeTool_run (with_fresh_locals exec) python_code globals =
     ExecutePythonCodeTool_run exec python_code globals"
    by (rule run_with_fresh_locals)
next
  assume a: "parse_program first_code = Some ss \<and> declared ss = []
        \<and> exec_fragment first_code globals [] = Some out"
  then have "ExecutePythonCodeTool_run python_exec first_code globals = NoReturn
         \<or> (\<exists>s. ExecutePythonCodeTool_run python_exec first_code globals = Returned s globals)
         \<or> (\<exists>e. ExecutePythonCodeTool_run python_exec first_code globals = Propagated e globals)"
    by (intro run_fragment_keeps_globals [where ss = ss and out = out]) simp_all
  then show "run_successively python_exec (first_code # rest) globals = [NoReturn]
      \<or> (\<exists>r. run_successively python_exec (first_code # rest) globals =
               r # run_successively python_exec rest globals)"
    by auto
qed

text \<open>The two runs of the specification's test: the first binds \<^verbatim>\<open>resultado\<close> to
  \<^verbatim>\<open>'A'\<close>, the second to \<^verbatim>\<open>'B'\<close>, and each returns its own value.\<close>

theorem run_fresh_local_namespace_witness:
  "parse_program ''resultado = 'A'\<newline>'' = Some [Assign ''resultado'' (Lit (PyStr ''A''))]
   \<and> declared [Assign ''resultado'' (Lit (PyStr ''A''))] = []
   \<and> exec_fragment ''resultado = 'A'\<newline>'' module_globals [] =
       Some (ExecDone module_globals [(''resultado'', PyStr ''A'')])
   \<and> run_successively python_exec [''resultado = 'A'\<newline>'', ''resultado = 'B'\<newline>''] module_globals =
       [Returned ''A'' module_globals, Returned ''B'' module_globals]
   \<and> run_successively python_exec [''resultado = 'B'\<newline>''] module_globals =
       [Returned ''B'' module_globals]"
proof -
  have p: "parse_program ''resultado = 'A'\<newline>'' = Some [Assign ''resultado'' (Lit (PyStr ''A''))]"
    by code_simp
  have d: "declared [Assign ''resultado'' (Lit (PyStr ''A''))] = []"
    by simp
  have x: "exec_fragment ''resultado = 'A'\<newline>'' module_globals [] =
       Some (ExecDone module_globals [(''resultado'', PyStr ''A'')])"
    by code_simp
  have a: "ExecutePythonCodeTool_run python_exec ''resultado = 'A'\<newline>'' module_globals =
       Returned ''A'' module_globals"
    by code_simp
  have b: "run_successively python_exec [''resultado = 'B'\<newline>''] module_globals =
       [Returned ''B'' module_globals]"
    by code_simp
  have "run_successively python_exec [''resultado = 'A'\<newline>'', ''resultado = 'B'\<newline>''] module_globals =
       [Returned ''A'' module_globals, Returned ''B'' module_globals]"
    using run_fresh_local_namespace [where first_code = "''resultado = 'A'\<newline>''"
        and rest = "[''resultado = 'B'\<newline>'']" and globals = module_globals
        and ss = "[Assign ''resultado'' (Lit (PyStr ''A''))]"
        and out = "ExecDone module_globals [(''resultado'', PyStr ''A'')]"
        and exec = python_exec and python_code = "[]"] p d x a b
    by simp
  then show ?thesis
    using p d x b by simp
qed

text \<open>
  C5 as stated fails. The first text declares \<^verbatim>\<open>x\<close> global and binds it; the globals
  dictionary keeps the binding, and the second text, run afterwards, reads it and
  returns \<^verbatim>\<open>7\<close>. Run on its own, the second text gets a \<^verbatim>\<open>NameError\<close> diagnostic.
\<close>

theorem global_binding_reaches_next_run:
  "run_successively python_exec [''global x\<newline>x = 7'', ''resultado = x''] module_globals =
     [Returned no_result_message (module_globals @ [(''x'', PyInt 7)]),
      Returned ''7'' (module_globals @ [(''x'', PyInt 7)])]
   \<and> run_successively python_exec [''resultado = x''] module_globals =
     [Returned (error_prefix @ ''NameError: name 'x' is not defined'') module_globals]"
  by code_simp



section \<open>Properties of the connection provider\<close>

text \<open>
  C9. In every environment \<^verbatim>\<open>get_db_connection_params\<close> returns a mapping with exactly
  the keys \<^verbatim>\<open>host\<close>, \<^verbatim>\<open>user\<close>, \<^verbatim>\<open>password\<close> and \<^verbatim>\<open>database\<close>, each holding the value of
  its environment variable, so an entry is \<^verbatim>\<open>None\<close> exactly when the variable is
  unset. It has no failing path: when a variable is unset it prints the warning and
  returns the mapping all the same.
\<close>

theorem get_db_connection_params_mapping:
  "map fst (fst (get_db_connection_params env)) = [''host'', ''user'', ''password'', ''database'']
   \<and> map_of (fst (get_db_connection_params env)) ''host'' = Some (env ''DB_HOST'')
   \<and> map_of (fst (get_db_connection_params env)) ''user'' = Some (env ''DB_USER'')
   \<and> map_of (fst (get_db_connection_params env)) ''password'' = Some (env ''DB_PASSWORD'')
   \<and> map_of (fst (get_db_connection_params env)) ''database'' = Some (env ''DB_NAME'')
   \<and> (map_of (fst (get_db_connection_params env)) ''host'' = Some None \<longleftrightarrow> env ''DB_HOST'' = None)
   \<and> (map_of (fst (get_db_connection_params env)) ''user'' = Some None \<longleftrightarrow> env ''DB_USER'' = None)
   \<and> (map_of (fst (get_db_connection_params env)) ''password'' = Some None \<longleftrightarrow> env ''DB_PASSWORD'' = None)
   \<and> (map_of (fst (get_db_connection_params env)) ''database'' = Some None \<longleftrightarrow> env ''DB_NAME'' = None)
   \<and> (env ''DB_HOST'' = None \<or> env ''DB_USER'' = None \<or> env ''DB_PASSWORD'' = None
        \<or> env ''DB_NAME'' = None
      \<longrightarrow> snd (get_db_connection_params env) = [params_warning])"
  by (auto simp add: get_db_connection_params_def os_getenv_def Let_def)

theorem get_db_connection_params_mapping_witness:
  "map_of [(''DB_HOST'', ''localhost''), (''DB_USER'', ''root'')] ''DB_NAME'' = None
   \<and> get_db_connection_params (map_of [(''DB_HOST'', ''localhost''), (''DB_USER'', ''root'')]) =
      ([(''host'', Some ''localhost''), (''user'', Some ''root''), (''password'', None),
        (''database'', None)], [params_warning])"
proof -
  have "snd (get_db_connection_params (map_of [(''DB_HOST'', ''localhost''), (''DB_USER'', ''root'')]))
        = [params_warning]"
    using get_db_connection_params_mapping
      [of "map_of [(''DB_HOST'', ''localhost''), (''DB_USER'', ''root'')]"]
    by simp
  moreover have "fst (get_db_connection_params (map_of [(''DB_HOST'', ''localhost''), (''DB_USER'', ''root'')]))
        = [(''host'', Some ''localhost''), (''user'', Some ''root''), (''password'', None),
           (''database'', None)]"
    by (simp add: get_db_connection_params_def os_getenv_def)
  ultimately show ?thesis
    by (simp add: prod_eq_iff)
qed

section \<open>Properties of the sales report crew\<close>

subsection \<open>The module as it stands\<close>

lemma quotes_seen_append:
  "quotes_seen k (xs @ ys) = quotes_seen_next ys (quotes_seen k xs)"
  by (induction xs arbitrary: k) (simp_all add: quotes_seen_next_def)

lemma quotes_seen_concat:
  "quotes_seen_next (concat ls) s = fold quotes_seen_next ls s"
proof (induction ls arbitrary: s)
  case Nil
  show ?case by (cases s) (simp_all add: quotes_seen_next_def)
next
  case (Cons l ls)
  have "quotes_seen_next (l @ concat ls) s = quotes_seen_next (concat ls) (quotes_seen_next l s)"
    by (cases s) (simp_all add: quotes_seen_next_def quotes_seen_append)
  with Cons show ?case by simp
qed

lemma quotes_seen_fewer:
  "quotes_seen (Suc k) cs = Some 0 \<Longrightarrow> Suc k \<le> 2 \<Longrightarrow> quotes_seen k cs = Some 0"
proof (induction cs arbitrary: k)
  case Nil
  then show ?case by simp
next
  case (Cons c cs)
  show ?case
  proof (cases "c = CHR 0x22")
    case True
    from Cons.prems(2) have "k = 0 \<or> k = 1" by arith
    moreover from Cons.prems(1) True have "k \<noteq> 1"
      by (auto split: if_splits)
    ultimately have k: "k = 0" by simp
    with Cons.prems(1) True have "quotes_seen (Suc 1) cs = Some 0"
      by (simp split: if_splits)
    then have "quotes_seen 1 cs = Some 0"
      by (rule Cons.IH) simp
    with True k show ?thesis by simp
  next
    case False
    with Cons.prems show ?thesis by (auto split: if_splits)
  qed
qed

lemma long_string_body_plain:
  "quotes_seen 0 xs = Some 0 \<Longrightarrow>
   long_string_body (xs @ CHR 0x22 # CHR 0x22 # CHR 0x22 # rest) = Some (xs, rest)"
proof (induction xs)
  case Nil
  show ?case by (simp add: triple_quote_def)
next
  case (Cons c cs)
  from Cons.prems have nb: "c \<noteq> CHR 0x5C"
    by (auto split: if_splits)
  have tail: "quotes_seen 0 cs = Some 0"
  proof (cases "c = CHR 0x22")
    case True
    with Cons.prems have "quotes_seen (Suc 0) cs = Some 0" by simp
    then show ?thesis by (rule quotes_seen_fewer) simp
  next
    case False
    with Cons.prems nb show ?thesis by simp
  qed
  have no_end: "take 3 (c # cs @ CHR 0x22 # CHR 0x22 # CHR 0x22 # rest) \<noteq> triple_quote"
  proof (cases "c = CHR 0x22")
    case False
    then show ?thesis by (simp add: triple_quote_def)
  next
    case True
    with Cons.prems have one: "quotes_seen (Suc 0) cs = Some 0" by simp
    show ?thesis
    proof (cases cs)
      case Nil
      with one show ?thesis by simp
    next
      case (Cons d ds)
      note cs = this
      show ?thesis
      proof (cases "d = CHR 0x22")
        case False
        with cs show ?thesis by (simp add: triple_quote_def)
      next
        case True
        with one cs have two: "quotes_seen 2 ds = Some 0"
          by (simp add: numeral_2_eq_2)
        show ?thesis
        proof (cases ds)
          case Nil
          with two show ?thesis by simp
        next
          case (Cons e es)
          with two have "e \<noteq> CHR 0x22" by (auto split: if_splits)
          with cs Cons show ?thesis by (simp add: triple_quote_def)
        qed
      qed
    qed
  qed
  from Cons.IH [OF tail] nb no_end show ?case
    by simp
qed

lemma before_sql_plain: "quotes_seen 0 query_text_before_sql = Some 0"
proof -
  have "quotes_seen_next query_text_before_sql (Some 0) = Some 0"
    unfolding query_text_before_sql_def quotes_seen_concat
    by (simp add: quotes_seen_next_def)
  then show ?thesis
    by (simp add: quotes_seen_next_def)
qed

text \<open>The literal opened on line 63 ends at the quotes of line 104, after
  \<^verbatim>\<open>query = \<close>; the query of the example and the rest of the text lie outside it.\<close>

lemma description_literal_ends_early:
  "long_string_body (query_task_text @ rest) =
     Some (query_text_before_sql,
           query_text_sql @ triple_quote @ query_text_after_sql @ rest)"
  using long_string_body_plain [OF before_sql_plain]
  by (simp add: query_task_text_def triple_quote_def)

lemma description_argument_no_expression:
  "parenthesised_long_string description_argument = Some (Inl SyntaxError)"
proof -
  define closing where "closing = triple_quote @ ''\<newline>            )''"
  define opened where
    "opened = ''\<newline>                '' @ triple_quote @ query_task_text @ closing"
  define left_over where
    "left_over = query_text_sql @ triple_quote @ query_text_after_sql @ closing"
  define next_token where "next_token = skip_blanks left_over"
  have s1: "strip_prefix ''('' description_argument = Some opened"
    by (simp add: description_argument_def opened_def closing_def strip_prefix_def)
  have s2: "strip_prefix triple_quote (skip_blanks opened) = Some (query_task_text @ closing)"
    by (simp add: opened_def strip_prefix_def skip_blanks_def triple_quote_def)
  have s3: "long_string_body (query_task_text @ closing) = Some (query_text_before_sql, left_over)"
    unfolding left_over_def by (rule description_literal_ends_early)
  have s4: "skip_blanks left_over = next_token"
    by (simp add: next_token_def)
  have s5: "takeWhile is_alpha next_token = ''SELECT''"
    by (simp add: next_token_def left_over_def query_text_sql_def skip_blanks_def
        is_alpha_def is_lower_def)
  have s6: "take 1 next_token \<noteq> '')''"
    by (simp add: next_token_def left_over_def query_text_sql_def skip_blanks_def)
  have s7: "''SELECT'' \<notin> set python_keywords"
    by (simp add: python_keywords_def)
  have s8: "take 1 (dropWhile is_alpha next_token) = '' ''"
    by (simp add: next_token_def left_over_def query_text_sql_def skip_blanks_def
        is_alpha_def is_lower_def)
  show ?thesis
    using s6 s8 by (simp add: parenthesised_long_string_def s1 s2 s3 s4 s5 s7 Let_def)
qed

lemma load_fails: "load_SalesReportCrew = Some (Inl SyntaxError)"
  by (simp add: load_SalesReportCrew_def description_argument_no_expression)

text \<open>
  C7, on the module as it stands. The \<^verbatim>\<open>description\<close> literal of
  \<^verbatim>\<open>task_python_db_query\<close> is closed by the triple quotes of its own example script,
  and the name \<^verbatim>\<open>SELECT\<close> follows it: the file does not compile. Whatever the query and
  whatever the agents would answer, an invocation ends with \<^verbatim>\<open>SyntaxError\<close> while the
  module is loaded; no stage starts, where the claim has two stages run in order.
\<close>

theorem run_pipeline_starts_no_stage:
  "run_pipeline ex query w = Some (Inl SyntaxError, [], w)"
  by (simp add: run_pipeline_def load_fails)

text \<open>
  C8, on the module as it stands. For every query, empty or not, and whatever the
  agents would answer, an invocation returns no report: it ends with \<^verbatim>\<open>SyntaxError\<close>
  while the module is loaded, where the claim has it return a non-empty report that
  begins with \<^verbatim>\<open>Oi Chefe\<close>.
\<close>

theorem run_pipeline_returns_no_report:
  "map_option fst (run_pipeline ex query w) = Some (Inl SyntaxError)
   \<and> map_option fst (run_pipeline ex query w) \<noteq> Some (Inr report)"
  by (simp add: run_pipeline_def load_fails)

subsection \<open>The crew as it is configured\<close>

text \<open>
  What lines 140 to 172 set up, for whatever string the \<^verbatim>\<open>description\<close> of the
  analyst's task is meant to be: two tasks run in order, and the writer's task
  starts with the analyst's output as its only context.
\<close>

lemma task_context_simps [simp]:
  "task_context (task_python_db_query d) = None"
  "task_context (write_task d) = Some [task_python_db_query d]"
  by (simp_all add: task_python_db_query_def write_task_def)

lemma task_roles [simp]:
  "role (task_agent (task_python_db_query d)) = ''Analista de Dados''"
  "role (task_agent (write_task d)) = ''Redator''"
  by (simp_all add: task_python_db_query_def write_task_def analista_dados_def redator_def)

lemma task_texts [simp]:
  "description (write_task d) = write_task_description"
  "expected_output (write_task d) = write_task_expected_output"
  by (simp_all add: write_task_def)

lemma tasks_differ [simp]:
  "task_python_db_query d \<noteq> write_task d" "write_task d \<noteq> task_python_db_query d"
  by (simp_all add: task_python_db_query_def write_task_def)

lemma context_of_first [simp]: "context_of (task_python_db_query d) [] = []"
  by (simp add: context_of_def)

lemma context_of_second [simp]:
  "context_of (write_task d) [(task_python_db_query d, out)] = [out]"
  by (simp add: context_of_def List.map_filter_simps)

lemma configured_crew_log:
  "SalesReportCrew_kickoff ex (setup_crew d) query w = (r, log, w') \<Longrightarrow>
   (\<exists>e. r = Inl e \<and> log = [Started (task_python_db_query d) [], Failed (task_python_db_query d) e])
   \<or> (\<exists>e out. r = Inl e \<and>
         log = [Started (task_python_db_query d) [], Finished (task_python_db_query d) out,
                Started (write_task d) [out], Failed (write_task d) e])
   \<or> (\<exists>report out. r = Inr report \<and>
         log = [Started (task_python_db_query d) [], Finished (task_python_db_query d) out,
                Started (write_task d) [out], Finished (write_task d) report])"
  by (auto simp add: SalesReportCrew_kickoff_def Crew_kickoff_def setup_crew_def Let_def
      split: prod.splits sum.splits if_splits)

lemma configured_crew_two_stages:
  assumes "SalesReportCrew_kickoff ex (setup_crew d) query w = (Inr report, log, w')"
  shows "stages_started log = [task_python_db_query d, write_task d]"
    and "\<exists>out. contexts_handed_to (write_task d) log = [[out]]
           \<and> Finished (task_python_db_query d) out \<in> set log"
  using configured_crew_log [OF assms] by auto

text \<open>The salutation is asked for in the description and in the expected output of the
  writer's task; the report of a run is the raw output of that task.\<close>

lemma salutation_requested:
  "sublist ''Oi Chefe'' write_task_description"
  "sublist ''Oi Chefe'' write_task_expected_output"
  by code_simp+

lemma configured_crew_report:
  assumes "SalesReportCrew_kickoff ex (setup_crew d) query w = (Inr report, log, w')"
  shows "last log = Finished (write_task d) report"
  using configured_crew_log [OF assms] by auto



end
